theory Spec2Isabelle
  imports Complex_Main "HOL-Library.Sublist"
begin

section \<open>JavaScript numbers and the relational operators\<close>

text \<open>
  The rule engine only compares its arguments against numeric literals. A JavaScript
  number is a finite double, one of the two infinities or NaN; every finite double is a
  real number and the comparison of two finite doubles is the comparison of the reals
  they denote, so a finite number is modelled by its real value (the two zeros of the
  source are the one real 0: they compare equal and are both falsy).
\<close>

datatype number = NaN | Finite real | Infinity | NegInfinity

text \<open>
  The arguments the rule engine is called with: \<open>undefined\<close> for an argument that
  is absent, \<open>null\<close> (the \<open>/recommend\<close> route forwards a JSON \<open>null\<close>
  temperature as it is) or a number.
\<close>

datatype jsval = Undefined | Null | Num number

fun ToNumber :: "jsval \<Rightarrow> number" where
  "ToNumber Undefined = NaN"
| "ToNumber Null = Finite 0"
| "ToNumber (Num n) = n"

text \<open>\<open>x < y\<close> on numbers: false as soon as one side is NaN.\<close>

fun number_lt :: "number \<Rightarrow> number \<Rightarrow> bool" where
  "number_lt NaN y = False"
| "number_lt x NaN = False"
| "number_lt (Finite a) (Finite b) = (a < b)"
| "number_lt (Finite a) Infinity = True"
| "number_lt NegInfinity (Finite b) = True"
| "number_lt NegInfinity Infinity = True"
| "number_lt x y = False"

text \<open>
  The four operators of the source, with the numeric literal on the right:
  \<open>v < c\<close>, \<open>v > c\<close>, \<open>v <= c\<close> and \<open>v >= c\<close>. The last two are false when
  the left operand converts to NaN, and otherwise the negation of the swapped strict
  comparison.
\<close>

definition js_lt :: "jsval \<Rightarrow> real \<Rightarrow> bool" where
  "js_lt v c = number_lt (ToNumber v) (Finite c)"

definition js_gt :: "jsval \<Rightarrow> real \<Rightarrow> bool" where
  "js_gt v c = number_lt (Finite c) (ToNumber v)"

definition js_le :: "jsval \<Rightarrow> real \<Rightarrow> bool" where
  "js_le v c = (ToNumber v \<noteq> NaN \<and> \<not> number_lt (Finite c) (ToNumber v))"

definition js_ge :: "jsval \<Rightarrow> real \<Rightarrow> bool" where
  "js_ge v c = (ToNumber v \<noteq> NaN \<and> \<not> number_lt (ToNumber v) (Finite c))"

text \<open>The truthiness test of \<open>if (temperature)\<close>.\<close>

fun ToBoolean :: "jsval \<Rightarrow> bool" where
  "ToBoolean Undefined = False"
| "ToBoolean Null = False"
| "ToBoolean (Num NaN) = False"
| "ToBoolean (Num (Finite x)) = (x \<noteq> 0)"
| "ToBoolean (Num Infinity) = True"
| "ToBoolean (Num NegInfinity) = True"

section \<open>Arrays in the store\<close>

text \<open>
  \<open>let recommendations = []\<close> allocates a new array object, every
  \<open>recommendations.push(s)\<close> mutates that object in place, and the function returns
  the reference. The store holds the array objects allocated so far; an address is an
  index into it. A statement of the function body is a store transformer, a block runs
  its statements in order and an \<open>if\<close> without \<open>else\<close> ends in \<open>skip\<close>.
  A reference handed out by \<open>new_array\<close> is always inside the store, which is the
  only case in which \<open>array_push\<close> is used.
\<close>

type_synonym addr = nat
type_synonym heap = "string list list"

definition new_array :: "heap \<Rightarrow> addr \<times> heap" where
  "new_array h = (length h, h @ [[]])"

definition array_push :: "addr \<Rightarrow> string \<Rightarrow> heap \<Rightarrow> heap" where
  "array_push a s h = h[a := h ! a @ [s]]"

definition skip :: "heap \<Rightarrow> heap" where
  "skip h = h"

definition block :: "(heap \<Rightarrow> heap) list \<Rightarrow> heap \<Rightarrow> heap" where
  "block stmts h = fold (\<lambda>stmt. stmt) stmts h"

text \<open>The sequence a call returns: the contents of the returned array.\<close>

definition returned :: "addr \<times> heap \<Rightarrow> string list" where
  "returned res = snd res ! fst res"

section \<open>The rule engine\<close>

text \<open>
  The progressive rule engine (basic, advanced and scientific level), statement by
  statement. The basic temperature check is guarded by
  \<open>temperature !== undefined\<close>; the advanced and the scientific checks compare
  \<open>temperature\<close> unguarded.
\<close>

definition ruleEngine :: "jsval \<Rightarrow> jsval \<Rightarrow> jsval \<Rightarrow> heap \<Rightarrow> addr \<times> heap" where
  "ruleEngine ph moisture temperature h0 =
    (let (recommendations, h) = new_array h0;
         push = array_push recommendations
     in (recommendations, block [
       if js_lt ph 6 then push ''Soil is acidic. Add lime to balance pH.''
       else if js_gt ph 8 then push ''Soil is alkaline. Add sulfur or compost.''
       else push ''Soil pH is good for most crops.'',

       if js_lt moisture 30 then push ''Soil is dry. Irrigation is recommended.''
       else if js_gt moisture 70 then push ''Soil is wet. Avoid overwatering.''
       else push ''Soil moisture is in a healthy range.'',

       if temperature \<noteq> Undefined then
         (if js_lt temperature 15 then push ''Temperature is low. Frost protection may be needed.''
          else if js_gt temperature 35 then push ''Temperature is high. Provide shade or extra water.''
          else push ''Temperature is suitable for most crops.'')
       else skip,

       if js_lt ph 5.5 then push ''Very acidic soil. Apply lime generously, monitor crop growth.''
       else if js_gt ph 8.5 then push ''Strongly alkaline soil. Consider gypsum or acidifying organic matter.''
       else skip,

       if js_lt moisture 20 then push ''Extremely dry soil. Use mulching and drip irrigation to conserve water.''
       else if js_gt moisture 80 then push ''Excess water can cause root rot. Improve drainage or raised beds.''
       else skip,

       if js_lt temperature 10 then push ''Severe cold stress. Use row covers or greenhouses for sensitive crops.''
       else if js_gt temperature 40 then push ''Heat stress likely. Use shade nets and frequent irrigation.''
       else skip,

       if js_lt ph 6 \<or> js_gt ph 8 then push ''Nutrient availability may be limited. Conduct soil NPK test.''
       else skip,

       if (js_gt moisture 70 \<and> js_gt temperature 30) \<or> js_gt temperature 35 then
         push ''High humidity and heat can increase pest/fungal disease risk. Monitor closely and consider IPM strategies.''
       else skip,

       if js_ge ph 6 \<and> js_le ph 7.5 \<and> js_ge moisture 30 \<and> js_le moisture 70 then
         push ''Conditions are optimal for crops like wheat, rice, maize, and vegetables.''
       else skip
     ] h))"

text \<open>
  The other \<open>ruleEngine.js\<close> of the repository: the basic level only, with its own
  wording of the messages, and the temperature check (commented ``if provided'') guarded
  by the truthiness of \<open>temperature\<close>.
\<close>

definition ruleEngine_simple :: "jsval \<Rightarrow> jsval \<Rightarrow> jsval \<Rightarrow> heap \<Rightarrow> addr \<times> heap" where
  "ruleEngine_simple ph moisture temperature h0 =
    (let (recommendations, h) = new_array h0;
         push = array_push recommendations
     in (recommendations, block [
       if js_lt ph 6 then push ''Soil is acidic. Add lime to balance pH.''
       else if js_gt ph 8 then push ''Soil is alkaline. Add sulfur or organic compost.''
       else push ''Soil pH is optimal for most crops.'',

       if js_lt moisture 30 then push ''Soil is too dry. Irrigation is recommended.''
       else if js_gt moisture 70 then push ''Soil is waterlogged. Improve drainage.''
       else push ''Soil moisture is within a good range.'',

       if ToBoolean temperature then
         (if js_lt temperature 15 then push ''Temperature is low. Consider frost protection.''
          else if js_gt temperature 35 then push ''Temperature is high. Shade crops or increase irrigation.''
          else push ''Temperature is favorable for most crops.'')
       else skip
     ] h))"

subsection \<open>The messages by name\<close>

text \<open>The messages of the progressive rule engine, named as the specification names them.\<close>

definition acidic_message :: string where
  "acidic_message = ''Soil is acidic. Add lime to balance pH.''"

definition alkaline_message :: string where
  "alkaline_message = ''Soil is alkaline. Add sulfur or compost.''"

definition optimal_ph_message :: string where
  "optimal_ph_message = ''Soil pH is good for most crops.''"

definition dry_message :: string where
  "dry_message = ''Soil is dry. Irrigation is recommended.''"

definition waterlogged_message :: string where
  "waterlogged_message = ''Soil is wet. Avoid overwatering.''"

definition good_moisture_message :: string where
  "good_moisture_message = ''Soil moisture is in a healthy range.''"

definition low_temperature_message :: string where
  "low_temperature_message = ''Temperature is low. Frost protection may be needed.''"

definition high_temperature_message :: string where
  "high_temperature_message = ''Temperature is high. Provide shade or extra water.''"

definition favorable_temperature_message :: string where
  "favorable_temperature_message = ''Temperature is suitable for most crops.''"

definition very_acidic_message :: string where
  "very_acidic_message = ''Very acidic soil. Apply lime generously, monitor crop growth.''"

definition strongly_alkaline_message :: string where
  "strongly_alkaline_message =
     ''Strongly alkaline soil. Consider gypsum or acidifying organic matter.''"

definition extremely_dry_message :: string where
  "extremely_dry_message =
     ''Extremely dry soil. Use mulching and drip irrigation to conserve water.''"

definition root_rot_message :: string where
  "root_rot_message = ''Excess water can cause root rot. Improve drainage or raised beds.''"

definition severe_cold_message :: string where
  "severe_cold_message =
     ''Severe cold stress. Use row covers or greenhouses for sensitive crops.''"

definition heat_stress_message :: string where
  "heat_stress_message = ''Heat stress likely. Use shade nets and frequent irrigation.''"

definition nutrient_warning :: string where
  "nutrient_warning = ''Nutrient availability may be limited. Conduct soil NPK test.''"

definition pest_warning :: string where
  "pest_warning =
     ''High humidity and heat can increase pest/fungal disease risk. Monitor closely and consider IPM strategies.''"

definition crop_suitability_message :: string where
  "crop_suitability_message =
     ''Conditions are optimal for crops like wheat, rice, maize, and vegetables.''"

definition ph_tier :: "string list" where
  "ph_tier = [acidic_message, alkaline_message, optimal_ph_message]"

definition moisture_tier :: "string list" where
  "moisture_tier = [dry_message, waterlogged_message, good_moisture_message]"

definition temperature_tier :: "string list" where
  "temperature_tier =
     [low_temperature_message, high_temperature_message, favorable_temperature_message]"

definition advanced_temperature_tier :: "string list" where
  "advanced_temperature_tier = [severe_cold_message, heat_stress_message]"

definition advanced_tier :: "string list" where
  "advanced_tier =
     [very_acidic_message, strongly_alkaline_message, extremely_dry_message, root_rot_message,
      severe_cold_message, heat_stress_message]"

definition scientific_warnings :: "string list" where
  "scientific_warnings = [nutrient_warning, pest_warning]"

text \<open>The number of elements of a sequence that belong to a tier.\<close>

definition count_in :: "string list \<Rightarrow> string list \<Rightarrow> nat" where
  "count_in tier out = length (filter (\<lambda>m. m \<in> set tier) out)"

text \<open>The temperature messages of the basic rule engine.\<close>

definition temperature_tier_simple :: "string list" where
  "temperature_tier_simple =
     [''Temperature is low. Consider frost protection.'',
      ''Temperature is high. Shade crops or increase irrigation.'',
      ''Temperature is favorable for most crops.'']"

subsection \<open>The contents of the returned array in closed form\<close>

text \<open>
  What the statements of each rule engine append, one segment per statement. These two
  functions are not part of the model: \<open>ruleEngine_advice\<close> and
  \<open>ruleEngine_simple_advice\<close> below prove them equal to the array the model returns.
\<close>

definition advice :: "jsval \<Rightarrow> jsval \<Rightarrow> jsval \<Rightarrow> string list" where
  "advice ph moisture temperature =
     (if js_lt ph 6 then [''Soil is acidic. Add lime to balance pH.'']
      else if js_gt ph 8 then [''Soil is alkaline. Add sulfur or compost.'']
      else [''Soil pH is good for most crops.'']) @
     (if js_lt moisture 30 then [''Soil is dry. Irrigation is recommended.'']
      else if js_gt moisture 70 then [''Soil is wet. Avoid overwatering.'']
      else [''Soil moisture is in a healthy range.'']) @
     (if temperature \<noteq> Undefined then
        (if js_lt temperature 15 then [''Temperature is low. Frost protection may be needed.'']
         else if js_gt temperature 35 then [''Temperature is high. Provide shade or extra water.'']
         else [''Temperature is suitable for most crops.''])
      else []) @
     (if js_lt ph 5.5 then [''Very acidic soil. Apply lime generously, monitor crop growth.'']
      else if js_gt ph 8.5 then [''Strongly alkaline soil. Consider gypsum or acidifying organic matter.'']
      else []) @
     (if js_lt moisture 20 then [''Extremely dry soil. Use mulching and drip irrigation to conserve water.'']
      else if js_gt moisture 80 then [''Excess water can cause root rot. Improve drainage or raised beds.'']
      else []) @
     (if js_lt temperature 10 then [''Severe cold stress. Use row covers or greenhouses for sensitive crops.'']
      else if js_gt temperature 40 then [''Heat stress likely. Use shade nets and frequent irrigation.'']
      else []) @
     (if js_lt ph 6 \<or> js_gt ph 8 then [''Nutrient availability may be limited. Conduct soil NPK test.'']
      else []) @
     (if (js_gt moisture 70 \<and> js_gt temperature 30) \<or> js_gt temperature 35 then
        [''High humidity and heat can increase pest/fungal disease risk. Monitor closely and consider IPM strategies.'']
      else []) @
     (if js_ge ph 6 \<and> js_le ph 7.5 \<and> js_ge moisture 30 \<and> js_le moisture 70 then
        [''Conditions are optimal for crops like wheat, rice, maize, and vegetables.'']
      else []) @ []"

definition advice_simple :: "jsval \<Rightarrow> jsval \<Rightarrow> jsval \<Rightarrow> string list" where
  "advice_simple ph moisture temperature =
     (if js_lt ph 6 then [''Soil is acidic. Add lime to balance pH.'']
      else if js_gt ph 8 then [''Soil is alkaline. Add sulfur or organic compost.'']
      else [''Soil pH is optimal for most crops.'']) @
     (if js_lt moisture 30 then [''Soil is too dry. Irrigation is recommended.'']
      else if js_gt moisture 70 then [''Soil is waterlogged. Improve drainage.'']
      else [''Soil moisture is within a good range.'']) @
     (if ToBoolean temperature then
        (if js_lt temperature 15 then [''Temperature is low. Consider frost protection.'']
         else if js_gt temperature 35 then [''Temperature is high. Shade crops or increase irrigation.'']
         else [''Temperature is favorable for most crops.''])
      else []) @ []"

text \<open>A statement that appends \<open>xs\<close> to the array at \<open>a\<close> and touches nothing else.\<close>

definition appends :: "addr \<Rightarrow> (heap \<Rightarrow> heap) \<Rightarrow> string list \<Rightarrow> bool" where
  "appends a stmt xs = (\<forall>h. a < length h \<longrightarrow> stmt h = h[a := h ! a @ xs])"

section \<open>Strings and values of the chat and recommendation handlers\<close>

text \<open>
  A string is a sequence of code units, here the code units below 256 (the characters
  of \<^typ>\<open>char\<close>). Modelled from the language definition, since they are built into
  JavaScript: \<open>String.prototype.trim\<close> removes white space and line terminators at both
  ends (tab, line feed, vertical tab, form feed, carriage return, space and no-break
  space are the ones below 256), and \<open>String.prototype.toLowerCase\<close> maps
  \<open>A\<close> to \<open>Z\<close> and the capital letters \<open>0xC0\<close> to \<open>0xDE\<close> (but not the
  multiplication sign \<open>0xD7\<close>) to the letter 32 code units further on.
\<close>

definition isWhiteSpace :: "char \<Rightarrow> bool" where
  "isWhiteSpace c =
     (c \<in> set [CHR 0x09, CHR 0x0A, CHR 0x0B, CHR 0x0C, CHR 0x0D, CHR 0x20, CHR 0xA0])"

definition trim :: "string \<Rightarrow> string" where
  "trim s = rev (dropWhile isWhiteSpace (rev (dropWhile isWhiteSpace s)))"

definition lowerChar :: "char \<Rightarrow> char" where
  "lowerChar c =
     (let n = (of_char c :: nat)
      in if (65 \<le> n \<and> n \<le> 90) \<or> (192 \<le> n \<and> n \<le> 222 \<and> n \<noteq> 215)
         then char_of (n + 32) else c)"

definition toLowerCase :: "string \<Rightarrow> string" where
  "toLowerCase s = map lowerChar s"

text \<open>
  The values the handlers meet: what a JSON response body parses to, \<open>undefined\<close>,
  and \<open>VBuiltin\<close> for an object of the language itself (a function or a prototype).
  An object is the list of its own properties, the first binding of a name being the
  one that counts.
\<close>

datatype jsvalue =
    VUndefined
  | VNull
  | VBoolean bool
  | VNumber number
  | VString string
  | VArray "jsvalue list"
  | VObject "(string \<times> jsvalue) list"
  | VBuiltin string

fun truthy :: "jsvalue \<Rightarrow> bool" where
  "truthy VUndefined = False"
| "truthy VNull = False"
| "truthy (VBoolean b) = b"
| "truthy (VNumber NaN) = False"
| "truthy (VNumber (Finite x)) = (x \<noteq> 0)"
| "truthy (VNumber Infinity) = True"
| "truthy (VNumber NegInfinity) = True"
| "truthy (VString s) = (s \<noteq> [])"
| "truthy (VArray xs) = True"
| "truthy (VObject kvs) = True"
| "truthy (VBuiltin n) = True"

text \<open>\<open>a || b\<close>.\<close>

definition js_or :: "jsvalue \<Rightarrow> jsvalue \<Rightarrow> jsvalue" where
  "js_or a b = (if truthy a then a else b)"

text \<open>
  What a statement can throw: a \<open>TypeError\<close> of the language, or the error a rejected
  request carries. A computation that can throw returns \<open>Inl\<close> of the error.
\<close>

datatype exn = TypeError | RequestError

text \<open>
  \<open>v.k\<close> for the property names the handlers read (\<open>answer\<close>, \<open>ph\<close>,
  \<open>moisture\<close>, \<open>temperature\<close>, \<open>desiredCrop\<close>), which no prototype defines: reading a property of \<open>undefined\<close> or \<open>null\<close> throws,
  an object yields its own property or \<open>undefined\<close>, every other value
  \<open>undefined\<close>.
\<close>

fun get_prop :: "jsvalue \<Rightarrow> string \<Rightarrow> exn + jsvalue" where
  "get_prop VUndefined k = Inl TypeError"
| "get_prop VNull k = Inl TypeError"
| "get_prop (VObject kvs) k = Inr (case map_of kvs k of Some v \<Rightarrow> v | None \<Rightarrow> VUndefined)"
| "get_prop v k = Inr VUndefined"

text \<open>
  \<open>v.trim()\<close>: only a string has the method; on every other value the call throws
  (\<open>trim\<close> is undefined or, as a property of a parsed object, not a function).
  \<open>v?.trim()\<close> is \<open>undefined\<close> when \<open>v\<close> is \<open>undefined\<close> or \<open>null\<close>.
\<close>

fun call_trim :: "jsvalue \<Rightarrow> exn + jsvalue" where
  "call_trim (VString s) = Inr (VString (trim s))"
| "call_trim v = Inl TypeError"

fun optional_call_trim :: "jsvalue \<Rightarrow> exn + jsvalue" where
  "optional_call_trim VUndefined = Inr VUndefined"
| "optional_call_trim VNull = Inr VUndefined"
| "optional_call_trim v = call_trim v"

section \<open>The command table\<close>

definition commands :: "(string \<times> string) list" where
  "commands = [
     (''help'', ''You can ask me about soil health, crop recommendations, pest management, and general agriculture advice.''),
     (''who are you'', ''I am AgroBot, your professional agriculture assistant. I provide guidance on crops, soil, and farming best practices.''),
     (''hello'', ''Hello! How can I assist you with your farm or garden today?''),
     (''hi'', ''Hi there! Ask me anything about agriculture.''),
     (''thank you'', ''You'' @ [CHR 0x27] @ ''re welcome! Happy to help with your agricultural queries.''),
     (''bye'', ''Goodbye! Wishing you a successful harvest.'')]"

text \<open>
  \<open>commands[key]\<close>. The table is a plain object, so a key it does not hold is looked
  up in \<open>Object.prototype\<close>; of the names defined there only \<open>constructor\<close> and
  \<open>__proto__\<close> are in lower case, as every key is.
\<close>

definition commands_get :: "string \<Rightarrow> jsvalue" where
  "commands_get key =
     (case map_of commands key of
        Some response \<Rightarrow> VString response
      | None \<Rightarrow> if key = ''constructor'' \<or> key = ''__proto__'' then VBuiltin key else VUndefined)"

definition getPreassignedCommand :: "string \<Rightarrow> jsvalue" where
  "getPreassignedCommand message =
     (let key = toLowerCase (trim message)
      in js_or (commands_get key) VNull)"

section \<open>The chat handler\<close>

definition AI_PERSONALITY_DESCRIPTION :: string where
  "AI_PERSONALITY_DESCRIPTION =
     ''\<newline>You are a professional and easy-to-understand agriculture AI.\<newline>Provide concise, accurate, and friendly guidance for farmers and students.\<newline>Always keep answers simple, clear, and practical.\<newline>''"

definition getAIPersonality :: string where
  "getAIPersonality = AI_PERSONALITY_DESCRIPTION"

record turn =
  role :: string
  content :: string

text \<open>
  The completion service is outside the program: a request either is rejected or
  resolves. \<open>axios.post\<close> is a function from the prompt and the token budget of the
  request body to the promise of \<open>response.data\<close>; \<open>fetch\<close> resolves to a response
  whose \<open>json()\<close> is a promise again, rejected when the body does not parse.
\<close>

datatype 'a promise = Rejected | Resolved 'a

type_synonym axios = "string \<Rightarrow> nat \<Rightarrow> jsvalue promise"
type_synonym fetch = "string \<Rightarrow> nat \<Rightarrow> jsvalue promise promise"

text \<open>
  What a call of the chat handler does besides returning: the lookups in the command
  table and the requests to the completion service, in order. (The \<open>console.error\<close>
  of the \<open>catch\<close> blocks is not recorded.)
\<close>

datatype event = CommandLookup string | CompletionCall string nat

definition queryPerplexityAI :: "axios \<Rightarrow> string \<Rightarrow> nat \<Rightarrow> (exn + jsvalue) \<times> event list" where
  "queryPerplexityAI post prompt maxTokens =
     (let attempt =
            (case post prompt maxTokens of
               Rejected \<Rightarrow> Inl RequestError
             | Resolved data \<Rightarrow>
                 (case get_prop data ''answer'' of
                    Inl err \<Rightarrow> Inl err
                  | Inr answer \<Rightarrow> Inr (js_or answer (VString ''AI failed to respond''))))
      in (case attempt of
            Inl err \<Rightarrow> Inr (VString ''AI failed to respond'')
          | Inr v \<Rightarrow> Inr v,
          [CompletionCall prompt maxTokens]))"

text \<open>\<open>xs.slice(-n)\<close>: the last \<open>n\<close> elements, all of them when there are fewer.\<close>

definition slice_last :: "nat \<Rightarrow> 'a list \<Rightarrow> 'a list" where
  "slice_last n xs = drop (length xs - n) xs"

fun join :: "string \<Rightarrow> string list \<Rightarrow> string" where
  "join sep [] = []"
| "join sep [x] = x"
| "join sep (x # y # ys) = x @ sep @ join sep (y # ys)"

definition render :: "turn \<Rightarrow> string" where
  "render m = (if role m = ''user'' then ''User'' else ''AI'') @ '': '' @ content m"

text \<open>The prompt around the rendered turns \<open>shown\<close>, and the \<open>aiPrompt\<close> of the handler.\<close>

definition prompt_of :: "turn list \<Rightarrow> string" where
  "prompt_of shown =
     getAIPersonality @ ''\<newline>Chat History:\<newline>'' @ join ''\<newline>'' (map render shown) @
     ''\<newline>AI (reply max 100 tokens, aim ~30 tokens):''"

definition aiPrompt :: "turn list \<Rightarrow> string" where
  "aiPrompt messages = prompt_of (slice_last 5 messages)"

text \<open>
  \<open>messages\<close> is \<open>None\<close> when the argument is missing. The whole body is inside
  \<open>try\<close>: \<open>attempt\<close> is the outcome of the \<open>try\<close> block and the last
  \<open>case\<close> is the \<open>catch\<close>.
\<close>

definition askPerplexityChat :: "axios \<Rightarrow> turn list option \<Rightarrow> (exn + jsvalue) \<times> event list" where
  "askPerplexityChat post messages =
     (let (attempt, events) =
            (case messages of
               None \<Rightarrow> (Inr (VString ''No messages provided''), [])
             | Some [] \<Rightarrow> (Inr (VString ''No messages provided''), [])
             | Some msgs \<Rightarrow>
                 (let userMessage = content (last msgs);
                      commandResponse = getPreassignedCommand userMessage
                  in if truthy commandResponse
                     then (Inr commandResponse, [CommandLookup userMessage])
                     else
                       (let (aiReply, calls) = queryPerplexityAI post (aiPrompt msgs) 100
                        in (case aiReply of Inl err \<Rightarrow> Inl err | Inr reply \<Rightarrow> call_trim reply,
                            CommandLookup userMessage # calls))))
      in (case attempt of
            Inl err \<Rightarrow> Inr (VString ''AI failed to respond'')
          | Inr v \<Rightarrow> Inr v,
          events))"

section \<open>The recommendation handler\<close>

text \<open>
  The handler that posts its prompt with \<open>fetch\<close>. \<open>params\<close> is whatever value
  the caller passes. \<open>ToString\<close> is the conversion a template literal applies to a
  value, a parameter of the model.
\<close>

text \<open>
  \<open>aiPersonality.description\<close>: \<open>aiPersonality\<close> is the default export of
  \<open>aiPersonality.js\<close>, the description string itself, and a string has no property
  \<open>description\<close>.
\<close>

definition aiPersonality_description :: jsvalue where
  "aiPersonality_description = VUndefined"

definition recommend_prompt ::
  "(jsvalue \<Rightarrow> string) \<Rightarrow> jsvalue \<Rightarrow> jsvalue \<Rightarrow> jsvalue \<Rightarrow> jsvalue \<Rightarrow> string" where
  "recommend_prompt ToString ph moisture temperature desiredCrop =
     ''\<newline>You are an agriculture AI assistant. Your personality is: '' @
     ToString aiPersonality_description @
     ''\<newline>Given the following soil data:\<newline>- pH: '' @ ToString ph @
     ''\<newline>- Moisture: '' @ ToString moisture @
     ''\<newline>- Temperature: '' @ ToString temperature @
     ''\<newline>- Desired Crop: '' @ ToString (js_or desiredCrop (VString ''any suitable crop'')) @
     ''\<newline>\<newline>Provide a professional, easy-to-understand crop or soil recommendation.\<newline>''"

text \<open>
  The first statement, \<open>const { ph, moisture, temperature, desiredCrop } = params\<close>,
  stands before the \<open>try\<close>: what it throws (a \<open>TypeError\<close> when \<open>params\<close> is
  \<open>undefined\<close> or \<open>null\<close>) leaves the function. After it, as in the chat handler,
  \<open>attempt\<close> is the outcome of the \<open>try\<close> block and the last \<open>case\<close> is
  the \<open>catch\<close>.
\<close>

definition askPerplexityRecommend ::
  "(jsvalue \<Rightarrow> string) \<Rightarrow> fetch \<Rightarrow> jsvalue \<Rightarrow> exn + jsvalue" where
  "askPerplexityRecommend ToString fetch params =
     (case get_prop params ''ph'' of
        Inl err \<Rightarrow> Inl err
      | Inr ph \<Rightarrow>
     (case get_prop params ''moisture'' of
        Inl err \<Rightarrow> Inl err
      | Inr moisture \<Rightarrow>
     (case get_prop params ''temperature'' of
        Inl err \<Rightarrow> Inl err
      | Inr temperature \<Rightarrow>
     (case get_prop params ''desiredCrop'' of
        Inl err \<Rightarrow> Inl err
      | Inr desiredCrop \<Rightarrow>
          (let attempt =
                 (let prompt = recommend_prompt ToString ph moisture temperature desiredCrop
                  in case fetch prompt 100 of
                       Rejected \<Rightarrow> Inl RequestError
                     | Resolved response \<Rightarrow>
                         (case response of
                            Rejected \<Rightarrow> Inl RequestError
                          | Resolved data \<Rightarrow>
                              (case get_prop data ''answer'' of
                                 Inl err \<Rightarrow> Inl err
                               | Inr answer \<Rightarrow>
                                   (case optional_call_trim answer of
                                      Inl err \<Rightarrow> Inl err
                                    | Inr trimmed \<Rightarrow>
                                        Inr (js_or trimmed
                                              (VString ''AI failed to provide a recommendation.''))))))
           in case attempt of
                Inl err \<Rightarrow> Inr (VString ''AI failed to provide a recommendation.'')
              | Inr v \<Rightarrow> Inr v)))))"

subsection \<open>Failure of the completion service\<close>

text \<open>
  The service has failed when the request is rejected (a network error), when the body
  does not parse or parses to a value without properties (a malformed response), or when
  the \<open>answer\<close> of the parsed body is missing or is not a string.
\<close>

definition no_answer :: "jsvalue \<Rightarrow> bool" where
  "no_answer data =
     (case get_prop data ''answer'' of
        Inl err \<Rightarrow> True
      | Inr (VString s) \<Rightarrow> False
      | Inr v \<Rightarrow> True)"

fun completion_failed :: "jsvalue promise \<Rightarrow> bool" where
  "completion_failed Rejected = True"
| "completion_failed (Resolved data) = no_answer data"

fun fetch_failed :: "jsvalue promise promise \<Rightarrow> bool" where
  "fetch_failed Rejected = True"
| "fetch_failed (Resolved Rejected) = True"
| "fetch_failed (Resolved (Resolved data)) = no_answer data"

subsection \<open>Concrete inputs\<close>

text \<open>
  A service whose response carries a number where the answer should be, a service whose
  response body does not parse, one that is down, and a conversion that renders every
  value as the empty string.
\<close>

definition numeric_answer :: axios where
  "numeric_answer prompt maxTokens = Resolved (VObject [(''answer'', VNumber (Finite 42))])"

definition unparsable :: fetch where
  "unparsable prompt maxTokens = Resolved Rejected"

definition offline :: axios where
  "offline prompt maxTokens = Rejected"

definition blank :: "jsvalue \<Rightarrow> string" where
  "blank v = []"

text \<open>The parameters of a recommendation request without temperature and desired crop.\<close>

definition soil_params :: jsvalue where
  "soil_params = VObject [(''ph'', VNumber (Finite 6.5)), (''moisture'', VNumber (Finite 50))]"


definition question :: turn where
  "question = \<lparr>role = ''user'', content = ''when to sow''\<rparr>"

text \<open>A one-message conversation asking for help, in mixed case between white space.\<close>

definition shouted_help :: "turn list" where
  "shouted_help = [\<lparr>role = ''user'', content = [CHR 0x09] @ ''  HeLP '' @ [CHR 0x0A]\<rparr>]"

text \<open>The response the command table holds for \<open>help\<close>.\<close>

definition help_response :: string where
  "help_response =
     ''You can ask me about soil health, crop recommendations, pest management, and general agriculture advice.''"

text \<open>The readings of the two scenarios.\<close>

definition cold_dry_acidic :: "heap \<Rightarrow> string list" where
  "cold_dry_acidic h0 = returned (ruleEngine (Num (Finite 5.0)) (Num (Finite 25)) (Num (Finite 5)) h0)"

definition mild :: "heap \<Rightarrow> string list" where
  "mild h0 = returned (ruleEngine (Num (Finite 6.5)) (Num (Finite 50)) (Num (Finite 25)) h0)"

section \<open>Properties of the rule engine\<close>

lemma appends_push: "appends a (array_push a s) [s]"
  by (simp add: appends_def array_push_def)

lemma appends_skip: "appends a skip []"
  by (simp add: appends_def skip_def)

lemma appends_if:
  "appends a f xs \<Longrightarrow> appends a g ys \<Longrightarrow> appends a (if c then f else g) (if c then xs else ys)"
  by simp

lemma appends_block_Nil: "appends a (block []) []"
  by (simp add: appends_def block_def)

lemma appends_block_Cons:
  "appends a s xs \<Longrightarrow> appends a (block ss) ys \<Longrightarrow> appends a (block (s # ss)) (xs @ ys)"
  by (simp add: appends_def block_def)

lemma appends_fresh: "appends (length h0) stmt xs \<Longrightarrow> stmt (h0 @ [[]]) = h0 @ [xs]"
  by (simp add: appends_def)

lemma ruleEngine_advice:
  "ruleEngine ph moisture temperature h0 = (length h0, h0 @ [advice ph moisture temperature])"
  unfolding ruleEngine_def new_array_def Let_def prod.case advice_def
  apply (rule arg_cong [where f = "Pair (length h0)"])
  apply (rule appends_fresh)
  apply (intro appends_block_Cons appends_block_Nil appends_if appends_push appends_skip)
  done

lemma ruleEngine_simple_advice:
  "ruleEngine_simple ph moisture temperature h0 =
     (length h0, h0 @ [advice_simple ph moisture temperature])"
  unfolding ruleEngine_simple_def new_array_def Let_def prod.case advice_simple_def
  apply (rule arg_cong [where f = "Pair (length h0)"])
  apply (rule appends_fresh)
  apply (intro appends_block_Cons appends_block_Nil appends_if appends_push appends_skip)
  done

lemma returned_ruleEngine:
  "returned (ruleEngine ph moisture temperature h0) = advice ph moisture temperature"
  by (simp add: ruleEngine_advice returned_def)

lemma returned_ruleEngine_simple:
  "returned (ruleEngine_simple ph moisture temperature h0) = advice_simple ph moisture temperature"
  by (simp add: ruleEngine_simple_advice returned_def)

subsection \<open>Reading the returned sequence\<close>

lemmas message_defs =
  acidic_message_def alkaline_message_def optimal_ph_message_def
  dry_message_def waterlogged_message_def good_moisture_message_def
  low_temperature_message_def high_temperature_message_def favorable_temperature_message_def
  very_acidic_message_def strongly_alkaline_message_def extremely_dry_message_def
  root_rot_message_def severe_cold_message_def heat_stress_message_def
  nutrient_warning_def pest_warning_def crop_suitability_message_def

lemmas tier_defs =
  ph_tier_def moisture_tier_def temperature_tier_def advanced_temperature_tier_def
  advanced_tier_def scientific_warnings_def

lemma count_in_append: "count_in tier (xs @ ys) = count_in tier xs + count_in tier ys"
  by (simp add: count_in_def)

lemma count_in_if:
  "count_in tier (if c then xs else ys) = (if c then count_in tier xs else count_in tier ys)"
  by simp

lemma count_in_Nil: "count_in tier [] = 0"
  by (simp add: count_in_def)

lemma count_in_single: "count_in tier [m] = (if m \<in> set tier then 1 else 0)"
  by (simp add: count_in_def)

lemmas count_in_simps = count_in_append count_in_if count_in_Nil count_in_single

lemma count_in_zero: "count_in tier out = 0 \<Longrightarrow> m \<in> set tier \<Longrightarrow> m \<notin> set out"
  by (auto simp add: count_in_def filter_empty_conv)

text \<open>On a finite number the four operators are the comparisons of the reals.\<close>

lemma js_compare_Finite:
  "js_lt (Num (Finite x)) c = (x < c)" "js_gt (Num (Finite x)) c = (c < x)"
  "js_le (Num (Finite x)) c = (x \<le> c)" "js_ge (Num (Finite x)) c = (c \<le> x)"
  by (auto simp add: js_lt_def js_gt_def js_le_def js_ge_def)

text \<open>\<open>undefined\<close> converts to NaN, so every comparison with it is false.\<close>

lemma js_compare_Undefined:
  "js_lt Undefined c = False" "js_gt Undefined c = False"
  "js_le Undefined c = False" "js_ge Undefined c = False"
  by (simp_all add: js_lt_def js_gt_def js_le_def js_ge_def)

lemma first_of_advice:
  "((if c then [a] else if d then [b] else [e]) @ rest) ! 0 = (if c then a else if d then b else e)"
  by simp

lemma second_of_advice:
  "((if c then [a] else if d then [b] else [e]) @
    (if c' then [a'] else if d' then [b'] else [e']) @ rest) ! 1 =
   (if c' then a' else if d' then b' else e')"
  by simp

lemma advice_first:
  "advice ph moisture temperature ! 0 =
     (if js_lt ph 6 then acidic_message
      else if js_gt ph 8 then alkaline_message else optimal_ph_message)"
  unfolding advice_def message_defs by (rule first_of_advice)

lemma advice_second:
  "advice ph moisture temperature ! 1 =
     (if js_lt moisture 30 then dry_message
      else if js_gt moisture 70 then waterlogged_message else good_moisture_message)"
  unfolding advice_def message_defs by (rule second_of_advice)

lemma advice_count_ph: "count_in ph_tier (advice ph moisture temperature) = 1"
  by (simp add: advice_def ph_tier_def message_defs count_in_simps
      split del: if_split cong: if_cong)

lemma advice_count_moisture: "count_in moisture_tier (advice ph moisture temperature) = 1"
  by (simp add: advice_def moisture_tier_def message_defs count_in_simps
      split del: if_split cong: if_cong)

lemma advice_count_temperature:
  "count_in temperature_tier (advice ph moisture temperature) =
     (if temperature = Undefined then 0 else 1)"
  by (simp add: advice_def temperature_tier_def message_defs count_in_simps
      split del: if_split cong: if_cong) simp

lemma advice_count_advanced_temperature:
  "count_in advanced_temperature_tier (advice ph moisture Undefined) = 0"
  by (simp add: advice_def tier_defs message_defs count_in_simps js_compare_Undefined
      split del: if_split cong: if_cong)

lemma advice_simple_count_temperature:
  "count_in temperature_tier_simple (advice_simple ph moisture temperature) =
     (if ToBoolean temperature then 1 else 0)"
  by (simp add: advice_simple_def temperature_tier_simple_def count_in_simps
      split del: if_split cong: if_cong)

lemma advice_cold_dry_acidic:
  "advice (Num (Finite 5.0)) (Num (Finite 25)) (Num (Finite 5)) =
     [acidic_message, dry_message, low_temperature_message, very_acidic_message,
      severe_cold_message, nutrient_warning]"
  by (simp add: advice_def js_compare_Finite message_defs)

lemma advice_mild:
  "advice (Num (Finite 6.5)) (Num (Finite 50)) (Num (Finite 25)) =
     [optimal_ph_message, good_moisture_message, favorable_temperature_message,
      crop_suitability_message]"
  by (simp add: advice_def js_compare_Finite message_defs)

subsection \<open>The basic pH and moisture tiers\<close>

text \<open>
  Claim C1. Whatever the arguments and the store, the first element of the sequence
  \<open>ruleEngine\<close> returns is the acidic-soil message when \<open>ph < 6\<close>, the alkaline
  message when \<open>ph > 8\<close> and the optimal message otherwise, and the second element is
  the dry message when \<open>moisture < 30\<close>, the waterlogged message when
  \<open>moisture > 70\<close> and the good-range message otherwise; the comparisons are those of
  the source language. Exactly one element of the sequence is a pH-tier message and
  exactly one is a moisture-tier message. At \<open>ph = 6\<close> and \<open>ph = 8\<close> the first
  element is the optimal message, at \<open>moisture = 30\<close> and \<open>moisture = 70\<close> the
  second is the good-range message.
\<close>

theorem C1_basic_ph_and_moisture_tiers:
  "returned (ruleEngine ph moisture temperature h0) ! 0 =
     (if js_lt ph 6 then acidic_message
      else if js_gt ph 8 then alkaline_message else optimal_ph_message) \<and>
   returned (ruleEngine ph moisture temperature h0) ! 1 =
     (if js_lt moisture 30 then dry_message
      else if js_gt moisture 70 then waterlogged_message else good_moisture_message) \<and>
   count_in ph_tier (returned (ruleEngine ph moisture temperature h0)) = 1 \<and>
   count_in moisture_tier (returned (ruleEngine ph moisture temperature h0)) = 1 \<and>
   returned (ruleEngine (Num (Finite 6)) moisture temperature h0) ! 0 = optimal_ph_message \<and>
   returned (ruleEngine (Num (Finite 8)) moisture temperature h0) ! 0 = optimal_ph_message \<and>
   returned (ruleEngine ph (Num (Finite 30)) temperature h0) ! 1 = good_moisture_message \<and>
   returned (ruleEngine ph (Num (Finite 70)) temperature h0) ! 1 = good_moisture_message"
  unfolding returned_ruleEngine advice_first advice_second advice_count_ph
    advice_count_moisture js_compare_Finite
  by simp

theorem C1_witness:
  "returned (ruleEngine (Num (Finite 5)) (Num (Finite 80)) Undefined []) ! 0 = acidic_message \<and>
   returned (ruleEngine (Num (Finite 5)) (Num (Finite 80)) Undefined []) ! 1 = waterlogged_message \<and>
   count_in ph_tier (returned (ruleEngine (Num (Finite 5)) (Num (Finite 80)) Undefined [])) = 1 \<and>
   count_in moisture_tier (returned (ruleEngine (Num (Finite 5)) (Num (Finite 80)) Undefined [])) = 1"
  using C1_basic_ph_and_moisture_tiers [of "Num (Finite 5)" "Num (Finite 80)" Undefined "[]"]
  by (simp add: js_compare_Finite)

subsection \<open>The temperature tier\<close>

text \<open>
  In the progressive rule engine the basic temperature tier contributes exactly one
  message unless \<open>temperature\<close> is \<open>undefined\<close>, and then none; no advanced
  temperature message appears for \<open>undefined\<close> either. A temperature of \<open>0\<close>
  gets its message like every other number.
\<close>

lemma ruleEngine_temperature_tier:
  "count_in temperature_tier (returned (ruleEngine ph moisture temperature h0)) =
     (if temperature = Undefined then 0 else 1)"
  by (simp only: returned_ruleEngine advice_count_temperature)

lemma ruleEngine_temperature_absent_iff:
  "(count_in temperature_tier (returned (ruleEngine ph moisture temperature h0)) = 0 \<and>
    count_in advanced_temperature_tier (returned (ruleEngine ph moisture temperature h0)) = 0)
   = (temperature = Undefined)"
  by (cases "temperature = Undefined")
    (simp_all add: returned_ruleEngine advice_count_temperature advice_count_advanced_temperature)

lemma ruleEngine_zero_temperature:
  "count_in temperature_tier (returned (ruleEngine ph moisture (Num (Finite 0)) h0)) = 1"
  by (simp add: ruleEngine_temperature_tier)

text \<open>
  The basic rule engine tests the truthiness of \<open>temperature\<close> instead: its
  temperature tier is absent for every falsy temperature, \<open>undefined\<close> or not.
\<close>

lemma ruleEngine_simple_temperature_tier:
  "count_in temperature_tier_simple (returned (ruleEngine_simple ph moisture temperature h0)) =
     (if ToBoolean temperature then 1 else 0)"
  by (simp only: returned_ruleEngine_simple advice_simple_count_temperature)

text \<open>
  Claim C3. The temperature-tier messages should be absent from the returned sequence
  if and only if \<open>temperature\<close> is \<open>undefined\<close>, every numeric temperature,
  \<open>0\<close> included, getting exactly one basic temperature message. The progressive
  rule engine does so (\<open>ruleEngine_temperature_absent_iff\<close>,
  \<open>ruleEngine_temperature_tier\<close>). The basic rule engine does not: called with pH
  6.5, moisture 50 and temperature 0 it returns the pH and the moisture message only,
  although the temperature is provided.
\<close>

theorem C3_simple_engine_drops_zero_temperature:
  "returned (ruleEngine_simple (Num (Finite 6.5)) (Num (Finite 50)) (Num (Finite 0)) []) =
     [''Soil pH is optimal for most crops.'', ''Soil moisture is within a good range.''] \<and>
   count_in temperature_tier_simple
     (returned (ruleEngine_simple (Num (Finite 6.5)) (Num (Finite 50)) (Num (Finite 0)) [])) = 0"
  by (simp add: returned_ruleEngine_simple advice_simple_count_temperature)
    (simp add: advice_simple_def js_compare_Finite)

text \<open>
  Claim C7. When \<open>temperature\<close> is \<open>undefined\<close> the two advanced temperature
  comparisons are false, neither the severe-cold nor the heat-stress message is in the
  returned sequence, and the call returns the array it allocated, whatever \<open>ph\<close>,
  \<open>moisture\<close> and the store.
\<close>

theorem C7_advanced_temperature_is_noop_when_absent:
  "\<not> js_lt Undefined 10 \<and> \<not> js_gt Undefined 40 \<and>
   severe_cold_message \<notin> set (returned (ruleEngine ph moisture Undefined h0)) \<and>
   heat_stress_message \<notin> set (returned (ruleEngine ph moisture Undefined h0)) \<and>
   ruleEngine ph moisture Undefined h0 =
     (length h0, h0 @ [returned (ruleEngine ph moisture Undefined h0)])"
proof -
  have none: "count_in advanced_temperature_tier (returned (ruleEngine ph moisture Undefined h0)) = 0"
    by (simp only: returned_ruleEngine advice_count_advanced_temperature)
  have "severe_cold_message \<notin> set (returned (ruleEngine ph moisture Undefined h0))"
    by (rule count_in_zero [OF none]) (simp add: advanced_temperature_tier_def)
  moreover have "heat_stress_message \<notin> set (returned (ruleEngine ph moisture Undefined h0))"
    by (rule count_in_zero [OF none]) (simp add: advanced_temperature_tier_def)
  moreover have "ruleEngine ph moisture Undefined h0 =
      (length h0, h0 @ [returned (ruleEngine ph moisture Undefined h0)])"
    by (simp only: returned_ruleEngine) (rule ruleEngine_advice)
  ultimately show ?thesis
    by (simp add: js_compare_Undefined)
qed

theorem C7_witness:
  "severe_cold_message \<notin> set (returned (ruleEngine (Num (Finite 7)) (Num (Finite 40)) Undefined [])) \<and>
   heat_stress_message \<notin> set (returned (ruleEngine (Num (Finite 7)) (Num (Finite 40)) Undefined []))"
  using C7_advanced_temperature_is_noop_when_absent [of "Num (Finite 7)" "Num (Finite 40)" "[]"]
  by simp

subsection \<open>The two scenarios\<close>

text \<open>
  Claim C5, as the specification states it: the sequence returned for pH 5.0, moisture
  25 and temperature 5 includes the acidic, dry, low-temperature, very-acidic,
  extremely-dry and severe-cold messages and the nutrient warning, and not the
  crop-suitability message. It is false: the extremely-dry message needs
  \<open>moisture < 20\<close>.
\<close>

theorem C5_counterexample:
  "\<not> (acidic_message \<in> set (cold_dry_acidic []) \<and>
      dry_message \<in> set (cold_dry_acidic []) \<and>
      low_temperature_message \<in> set (cold_dry_acidic []) \<and>
      very_acidic_message \<in> set (cold_dry_acidic []) \<and>
      extremely_dry_message \<in> set (cold_dry_acidic []) \<and>
      severe_cold_message \<in> set (cold_dry_acidic []) \<and>
      nutrient_warning \<in> set (cold_dry_acidic []) \<and>
      crop_suitability_message \<notin> set (cold_dry_acidic []))"
  unfolding cold_dry_acidic_def returned_ruleEngine advice_cold_dry_acidic
  by (simp add: message_defs)

text \<open>
  Claim C5, amended. The sequence returned for pH 5.0, moisture 25 and temperature 5 is
  the acidic, dry, low-temperature, very-acidic and severe-cold messages and the nutrient
  warning, in this order; it includes neither the extremely-dry nor the crop-suitability
  message.
\<close>

theorem C5_cold_dry_acidic_scenario:
  "cold_dry_acidic h0 =
     [acidic_message, dry_message, low_temperature_message, very_acidic_message,
      severe_cold_message, nutrient_warning] \<and>
   extremely_dry_message \<notin> set (cold_dry_acidic h0) \<and>
   crop_suitability_message \<notin> set (cold_dry_acidic h0)"
  unfolding cold_dry_acidic_def returned_ruleEngine advice_cold_dry_acidic
  by (simp add: message_defs)

theorem C5_witness:
  "length (cold_dry_acidic []) = 6 \<and> extremely_dry_message \<notin> set (cold_dry_acidic [])"
  using C5_cold_dry_acidic_scenario [of "[]"] by (simp add: message_defs)

text \<open>
  Claim C8. The sequence returned for pH 6.5, moisture 50 and temperature 25 is the
  optimal-pH, good-moisture, favorable-temperature and crop-suitability messages; none
  of its elements is an advanced-tier message or a scientific-tier warning.
\<close>

theorem C8_mild_scenario:
  "mild h0 =
     [optimal_ph_message, good_moisture_message, favorable_temperature_message,
      crop_suitability_message] \<and>
   count_in advanced_tier (mild h0) = 0 \<and>
   count_in scientific_warnings (mild h0) = 0"
  unfolding mild_def returned_ruleEngine advice_mild
  by (simp add: count_in_def tier_defs message_defs)

theorem C8_witness:
  "length (mild []) = 4 \<and> count_in advanced_tier (mild []) = 0 \<and>
   count_in scientific_warnings (mild []) = 0"
  using C8_mild_scenario [of "[]"] by (simp add: count_in_def tier_defs message_defs)

subsection \<open>Purity\<close>

text \<open>
  Claim C9. A call of either rule engine allocates one array and writes to nothing
  else: the arrays already in the store are unchanged. The sequence it returns is the
  same from whatever store it is called; in particular the second of two successive
  calls with the same arguments returns the same sequence as the first, and leaves the
  array the first call returned as it was.
\<close>

theorem C9_rule_engine_is_pure:
  "returned (ruleEngine ph moisture temperature h) =
     returned (ruleEngine ph moisture temperature h') \<and>
   take (length h) (snd (ruleEngine ph moisture temperature h)) = h \<and>
   length (snd (ruleEngine ph moisture temperature h)) = Suc (length h) \<and>
   (case ruleEngine ph moisture temperature h of (r1, h1) \<Rightarrow>
      case ruleEngine ph moisture temperature h1 of (r2, h2) \<Rightarrow>
        h2 ! r2 = h1 ! r1 \<and> h2 ! r1 = h1 ! r1) \<and>
   returned (ruleEngine_simple ph moisture temperature h) =
     returned (ruleEngine_simple ph moisture temperature h') \<and>
   take (length h) (snd (ruleEngine_simple ph moisture temperature h)) = h \<and>
   length (snd (ruleEngine_simple ph moisture temperature h)) = Suc (length h) \<and>
   (case ruleEngine_simple ph moisture temperature h of (r1, h1) \<Rightarrow>
      case ruleEngine_simple ph moisture temperature h1 of (r2, h2) \<Rightarrow>
        h2 ! r2 = h1 ! r1 \<and> h2 ! r1 = h1 ! r1)"
  by (simp add: returned_ruleEngine returned_ruleEngine_simple)
    (simp add: ruleEngine_advice ruleEngine_simple_advice nth_append)

theorem C9_witness:
  "returned (ruleEngine (Num (Finite 5)) (Num (Finite 25)) Null [[''kept'']]) =
     returned (ruleEngine (Num (Finite 5)) (Num (Finite 25)) Null []) \<and>
   take 1 (snd (ruleEngine (Num (Finite 5)) (Num (Finite 25)) Null [[''kept'']])) = [[''kept'']]"
  using C9_rule_engine_is_pure [of "Num (Finite 5)" "Num (Finite 25)" Null "[[''kept'']]" "[]"]
  by simp

section \<open>Properties of the chat and recommendation handlers\<close>

subsection \<open>The command table\<close>

lemma help_lookup:
  "toLowerCase (trim message) = ''help'' \<Longrightarrow> getPreassignedCommand message = VString help_response"
  by (simp add: getPreassignedCommand_def commands_get_def commands_def js_or_def help_response_def)

text \<open>
  Claim C6. When the last message of a conversation, trimmed and in lower case, is
  \<open>help\<close>, \<open>askPerplexityChat\<close> returns the response the command table holds for
  \<open>help\<close>, and all it does is the one lookup in the command table: no request goes to
  the completion service, whatever that service would answer.
\<close>

theorem C6_help_is_answered_from_the_table:
  assumes "msgs \<noteq> []" and "toLowerCase (trim (content (last msgs))) = ''help''"
  shows "map_of commands ''help'' = Some help_response \<and>
         getPreassignedCommand (content (last msgs)) = VString help_response \<and>
         askPerplexityChat post (Some msgs) =
           (Inr (VString help_response), [CommandLookup (content (last msgs))])"
proof -
  have table: "map_of commands ''help'' = Some help_response"
    by (simp add: commands_def help_response_def)
  have found: "getPreassignedCommand (content (last msgs)) = VString help_response"
    using assms(2) by (rule help_lookup)
  have "truthy (VString help_response)"
    by (simp add: help_response_def)
  with found assms(1) have "askPerplexityChat post (Some msgs) =
      (Inr (VString help_response), [CommandLookup (content (last msgs))])"
    by (cases msgs) (simp_all add: askPerplexityChat_def Let_def)
  with table found show ?thesis by simp
qed

theorem C6_witness:
  "shouted_help \<noteq> [] \<and>
   toLowerCase (trim (content (last shouted_help))) = ''help'' \<and>
   askPerplexityChat offline (Some shouted_help) =
     (Inr (VString help_response), [CommandLookup (content (last shouted_help))])"
proof -
  have a: "shouted_help \<noteq> []"
    by (simp add: shouted_help_def)
  have b: "toLowerCase (trim (content (last shouted_help))) = ''help''"
    by code_simp
  from C6_help_is_answered_from_the_table [OF a b, of offline] a b show ?thesis
    by simp
qed

subsection \<open>No messages\<close>

text \<open>
  Claim C10. When the \<open>messages\<close> argument is missing or is the empty sequence,
  \<open>askPerplexityChat\<close> returns the string \<open>No messages provided\<close> and does nothing
  else: no lookup in the command table and no request to the completion service.
\<close>

theorem C10_no_messages_provided:
  "askPerplexityChat post None = (Inr (VString ''No messages provided''), []) \<and>
   askPerplexityChat post (Some []) = (Inr (VString ''No messages provided''), [])"
  by (simp add: askPerplexityChat_def)

theorem C10_witness:
  "askPerplexityChat numeric_answer (Some []) = (Inr (VString ''No messages provided''), [])"
  using C10_no_messages_provided [of numeric_answer] by simp

subsection \<open>The prompt\<close>





subsection \<open>Failure of the completion service\<close>

lemma trim_fallback: "trim ''AI failed to respond'' = ''AI failed to respond''"
  by code_simp

text \<open>
  After a failed request \<open>queryPerplexityAI\<close> returns the fallback string, or a truthy
  value that is not a string, on which \<open>trim\<close> throws.
\<close>

lemma failed_query_then_trim:
  "completion_failed (post prompt n) \<Longrightarrow>
   (case fst (queryPerplexityAI post prompt n) of
      Inl err \<Rightarrow> Inl err
    | Inr reply \<Rightarrow> call_trim reply) \<in>
     {Inl TypeError, Inr (VString (trim ''AI failed to respond''))}"
  apply (cases "post prompt n")
   apply (simp add: queryPerplexityAI_def)
  subgoal for data
    apply (cases "get_prop data ''answer''")
     apply (simp add: queryPerplexityAI_def no_answer_def)
    subgoal for answer
      by (cases answer) (auto simp add: queryPerplexityAI_def no_answer_def js_or_def)
    done
  done

lemma chat_fallback:
  assumes "msgs \<noteq> []" and "\<not> truthy (getPreassignedCommand (content (last msgs)))"
    and "completion_failed (post (aiPrompt msgs) 100)"
  shows "fst (askPerplexityChat post (Some msgs)) = Inr (VString ''AI failed to respond'')"
  using assms failed_query_then_trim [of post "aiPrompt msgs" 100]
  by (cases msgs) (auto simp add: askPerplexityChat_def Let_def trim_fallback split: prod.splits)

lemma recommend_fallback:
  assumes "get_prop params ''ph'' = Inr ph" and "get_prop params ''moisture'' = Inr moisture"
    and "get_prop params ''temperature'' = Inr temperature"
    and "get_prop params ''desiredCrop'' = Inr desiredCrop"
    and "fetch_failed (fetch (recommend_prompt ToString ph moisture temperature desiredCrop) 100)"
  shows "askPerplexityRecommend ToString fetch params =
           Inr (VString ''AI failed to provide a recommendation.'')"
proof (cases "fetch (recommend_prompt ToString ph moisture temperature desiredCrop) 100")
  case Rejected
  with assms(1-4) show ?thesis
    by (simp add: askPerplexityRecommend_def)
next
  case (Resolved response)
  show ?thesis
  proof (cases response)
    case Rejected
    with Resolved assms(1-4) show ?thesis
      by (simp add: askPerplexityRecommend_def)
  next
    case inner: (Resolved data)
    show ?thesis
    proof (cases "get_prop data ''answer''")
      case (Inl err)
      with Resolved inner assms(1-4) show ?thesis
        by (simp add: askPerplexityRecommend_def)
    next
      case (Inr answer)
      with Resolved inner assms show ?thesis
        by (cases answer) (auto simp add: askPerplexityRecommend_def no_answer_def js_or_def)
    qed
  qed
qed

text \<open>What a call with at least one message does, in order.\<close>

lemma chat_events:
  "msgs \<noteq> [] \<Longrightarrow>
   snd (askPerplexityChat post (Some msgs)) =
     (if truthy (getPreassignedCommand (content (last msgs)))
      then [CommandLookup (content (last msgs))]
      else [CommandLookup (content (last msgs)), CompletionCall (aiPrompt msgs) 100])"
  by (cases msgs) (simp_all add: askPerplexityChat_def Let_def queryPerplexityAI_def
      split: prod.splits)

lemma chat_fallback_of_failed_request:
  assumes "CompletionCall p n \<in> set (snd (askPerplexityChat post messages))"
    and "completion_failed (post p n)"
  shows "fst (askPerplexityChat post messages) = Inr (VString ''AI failed to respond'')"
proof (cases messages)
  case None
  with assms(1) show ?thesis
    by (simp add: askPerplexityChat_def)
next
  case (Some msgs)
  show ?thesis
  proof (cases "msgs = []")
    case True
    with Some assms(1) show ?thesis
      by (simp add: askPerplexityChat_def)
  next
    case False
    with Some assms(1) have miss: "\<not> truthy (getPreassignedCommand (content (last msgs)))"
      and request: "p = aiPrompt msgs \<and> n = 100"
      by (auto simp add: chat_events split: if_splits)
    from False miss assms(2) request Some show ?thesis
      by (simp add: chat_fallback)
  qed
qed

lemma chat_never_raises: "\<exists>reply. fst (askPerplexityChat post messages) = Inr reply"
  by (auto simp add: askPerplexityChat_def Let_def
      split: prod.splits sum.splits option.splits list.splits)

lemma get_prop_of_value:
  "params \<noteq> VUndefined \<Longrightarrow> params \<noteq> VNull \<Longrightarrow> \<exists>v. get_prop params k = Inr v"
  by (cases params) simp_all

lemma recommend_never_raises:
  assumes "params \<noteq> VUndefined" and "params \<noteq> VNull"
  shows "\<exists>reply. askPerplexityRecommend ToString fetch params = Inr reply"
proof -
  from get_prop_of_value [OF assms] obtain ph where ph: "get_prop params ''ph'' = Inr ph"
    by blast
  from get_prop_of_value [OF assms] obtain moisture
    where moisture: "get_prop params ''moisture'' = Inr moisture"
    by blast
  from get_prop_of_value [OF assms] obtain temperature
    where temperature: "get_prop params ''temperature'' = Inr temperature"
    by blast
  from get_prop_of_value [OF assms] obtain desiredCrop
    where desiredCrop: "get_prop params ''desiredCrop'' = Inr desiredCrop"
    by blast
  from ph moisture temperature desiredCrop show ?thesis
    by (auto simp add: askPerplexityRecommend_def Let_def split: sum.splits)
qed

text \<open>Without parameters the destructuring throws, and nothing catches it.\<close>

lemma recommend_raises:
  "askPerplexityRecommend ToString fetch VUndefined = Inl TypeError"
  "askPerplexityRecommend ToString fetch VNull = Inl TypeError"
  by (simp_all add: askPerplexityRecommend_def)

text \<open>
  Claim C2, as the specification states it: whenever the completion service fails,
  \<open>askPerplexityRecommend\<close> returns exactly
  \<open>AI failed to provide a recommendation.\<close>, and it never throws. It is false:
  called without parameters, with a service whose response body does not parse, it
  throws a \<open>TypeError\<close> instead of returning the fallback string.
\<close>

theorem C2_counterexample:
  "askPerplexityRecommend blank unparsable VUndefined = Inl TypeError \<and>
   askPerplexityRecommend blank unparsable VUndefined \<noteq>
     Inr (VString ''AI failed to provide a recommendation.'')"
  by (simp add: askPerplexityRecommend_def)

text \<open>
  Claim C2, amended. When a request \<open>askPerplexityChat\<close> has made to the completion
  service has failed (a rejected request, a malformed response or a response without a
  textual answer), it returns exactly \<open>AI failed to respond\<close>, and it never throws,
  whatever the messages and the behaviour of the service. When
  \<open>askPerplexityRecommend\<close> is called with parameters that are neither
  \<open>undefined\<close> nor \<open>null\<close>, it never throws either, and when its request to the
  completion service fails it returns exactly
  \<open>AI failed to provide a recommendation.\<close>
\<close>

theorem C2_failure_gives_the_fallback_strings:
  "(CompletionCall p n \<in> set (snd (askPerplexityChat post messages)) \<and>
    completion_failed (post p n) \<longrightarrow>
      fst (askPerplexityChat post messages) = Inr (VString ''AI failed to respond'')) \<and>
   (\<exists>reply. fst (askPerplexityChat post messages) = Inr reply) \<and>
   (get_prop params ''ph'' = Inr ph \<and> get_prop params ''moisture'' = Inr moisture \<and>
    get_prop params ''temperature'' = Inr temperature \<and>
    get_prop params ''desiredCrop'' = Inr desiredCrop \<and>
    fetch_failed (fetch (recommend_prompt ToString ph moisture temperature desiredCrop) 100) \<longrightarrow>
      askPerplexityRecommend ToString fetch params =
        Inr (VString ''AI failed to provide a recommendation.'')) \<and>
   (params \<noteq> VUndefined \<and> params \<noteq> VNull \<longrightarrow>
      (\<exists>reply. askPerplexityRecommend ToString fetch params = Inr reply))"
  using chat_fallback_of_failed_request [of p n post messages]
    chat_never_raises [of post messages]
    recommend_fallback [of params ph moisture temperature desiredCrop fetch ToString]
    recommend_never_raises [of params ToString fetch]
  by blast

theorem C2_witness:
  "CompletionCall (aiPrompt [question]) 100 \<in>
     set (snd (askPerplexityChat numeric_answer (Some [question]))) \<and>
   completion_failed (numeric_answer (aiPrompt [question]) 100) \<and>
   fst (askPerplexityChat numeric_answer (Some [question])) =
     Inr (VString ''AI failed to respond'') \<and>
   get_prop soil_params ''ph'' = Inr (VNumber (Finite 6.5)) \<and>
   get_prop soil_params ''moisture'' = Inr (VNumber (Finite 50)) \<and>
   get_prop soil_params ''temperature'' = Inr VUndefined \<and>
   get_prop soil_params ''desiredCrop'' = Inr VUndefined \<and>
   fetch_failed
     (unparsable
       (recommend_prompt blank (VNumber (Finite 6.5)) (VNumber (Finite 50)) VUndefined VUndefined)
       100) \<and>
   soil_params \<noteq> VUndefined \<and> soil_params \<noteq> VNull \<and>
   askPerplexityRecommend blank unparsable soil_params =
     Inr (VString ''AI failed to provide a recommendation.'')"
proof -
  have miss: "\<not> truthy (getPreassignedCommand (content (last [question])))"
    by code_simp
  then have a: "CompletionCall (aiPrompt [question]) 100 \<in>
      set (snd (askPerplexityChat numeric_answer (Some [question])))"
    by (simp add: chat_events)
  have b: "completion_failed (numeric_answer (aiPrompt [question]) 100)"
    by (simp add: numeric_answer_def no_answer_def)
  have c: "get_prop soil_params ''ph'' = Inr (VNumber (Finite 6.5))"
    "get_prop soil_params ''moisture'' = Inr (VNumber (Finite 50))"
    "get_prop soil_params ''temperature'' = Inr VUndefined"
    "get_prop soil_params ''desiredCrop'' = Inr VUndefined"
    "soil_params \<noteq> VUndefined" "soil_params \<noteq> VNull"
    by (simp_all add: soil_params_def)
  have d: "fetch_failed
      (unparsable
        (recommend_prompt blank (VNumber (Finite 6.5)) (VNumber (Finite 50)) VUndefined VUndefined)
        100)"
    by (simp add: unparsable_def)
  from C2_failure_gives_the_fallback_strings
    [where p = "aiPrompt [question]" and n = 100 and messages = "Some [question]"
       and post = numeric_answer and fetch = unparsable and params = soil_params
       and ToString = blank and ph = "VNumber (Finite 6.5)" and moisture = "VNumber (Finite 50)"
       and temperature = VUndefined and desiredCrop = VUndefined]
    a b c d
  show ?thesis
    by blast
qed

end
